theory Spec2Isabelle
  imports Complex_Main "HOL-Library.AList" "HOL-Library.Sublist"
begin

section \<open>Python values and dictionaries\<close>

text \<open>
  The values a marker argument or a configuration field can hold: \<open>None\<close>, a bool, a
  string or a number. Numbers are only stored and passed on by the code modelled here,
  never computed with; they are written as reals, \<open>1 / 10\<close> for the literal \<open>0.1\<close>.
  \<open>truthy\<close> is Python's truth test, as used by \<open>if x:\<close> and \<open>and\<close>.
\<close>

datatype pyval = PyNone | PyBool bool | PyStr string | PyFloat real

fun truthy :: "pyval \<Rightarrow> bool" where
  "truthy PyNone = False"
| "truthy (PyBool b) = b"
| "truthy (PyStr s) = (s \<noteq> [])"
| "truthy (PyFloat x) = (x \<noteq> 0)"

text \<open>
  A \<open>dict[str, Any]\<close> is an association list in insertion order with distinct keys.
  \<open>d.get(k, default)\<close>, \<open>d[k] = v\<close> and \<open>d.update(other)\<close>:
\<close>

type_synonym pydict = "(string \<times> pyval) list"

definition dict_get :: "pydict \<Rightarrow> string \<Rightarrow> pyval \<Rightarrow> pyval" where
  "dict_get d k dflt = (case map_of d k of None \<Rightarrow> dflt | Some v \<Rightarrow> v)"

definition dict_set :: "string \<Rightarrow> pyval \<Rightarrow> pydict \<Rightarrow> pydict" where
  "dict_set k v d = AList.update k v d"

fun dict_update :: "pydict \<Rightarrow> pydict \<Rightarrow> pydict" where
  "dict_update d [] = d"
| "dict_update d ((k, v) # rest) = dict_update (dict_set k v d) rest"

datatype py_error = AttributeError string | IndexError | TypeError string

section \<open>combined.py: PyLeakConfig\<close>

record PyLeakConfig =
  detect_tasks :: pyval
  task_action :: pyval
  task_name_filter :: pyval
  enable_task_creation_tracking :: pyval
  detect_threads :: pyval
  thread_action :: pyval
  thread_name_filter :: pyval
  exclude_daemon_threads :: pyval
  detect_blocking :: pyval
  blocking_action :: pyval
  blocking_threshold :: pyval
  blocking_check_interval :: pyval

text \<open>\<open>PyLeakConfig.__init__(self, marker_args)\<close>, field by field.\<close>

definition PyLeakConfig_init :: "pydict \<Rightarrow> PyLeakConfig" where
  "PyLeakConfig_init marker_args =
     \<lparr> detect_tasks = dict_get marker_args ''tasks'' (PyBool True),
       task_action = dict_get marker_args ''task_action'' (PyStr ''raise''),
       task_name_filter = dict_get marker_args ''task_name_filter'' PyNone,
       enable_task_creation_tracking =
         dict_get marker_args ''enable_creation_tracking'' (PyBool False),
       detect_threads = dict_get marker_args ''threads'' (PyBool True),
       thread_action = dict_get marker_args ''thread_action'' (PyStr ''raise''),
       thread_name_filter = dict_get marker_args ''thread_name_filter'' PyNone,
       exclude_daemon_threads = dict_get marker_args ''exclude_daemon'' (PyBool True),
       detect_blocking = dict_get marker_args ''blocking'' (PyBool True),
       blocking_action = dict_get marker_args ''blocking_action'' (PyStr ''raise''),
       blocking_threshold = dict_get marker_args ''blocking_threshold'' (PyFloat (1 / 10)),
       blocking_check_interval =
         dict_get marker_args ''blocking_check_interval'' (PyFloat (1 / 100)) \<rparr>"

text \<open>
  The class statement of \<open>PyLeakConfig\<close> (no base class, no decorator) binds its
  docstring and one function, \<open>__init__\<close>. These are the names of the class's own
  namespace; \<open>object\<close> adds only double-underscore names. Looking any other name up
  on the class raises \<open>AttributeError\<close>.
\<close>

definition PyLeakConfig_class_names :: "string list" where
  "PyLeakConfig_class_names = [''__module__'', ''__qualname__'', ''__doc__'', ''__init__'']"

definition class_getattr :: "string list \<Rightarrow> string \<Rightarrow> py_error + string" where
  "class_getattr names attr = (if attr \<in> set names then Inr attr else Inl (AttributeError attr))"

section \<open>pytest_plugin.py: should_monitor_test\<close>

text \<open>
  A pytest mark carries positional arguments and keyword arguments. The test item is
  reduced to what \<open>should_monitor_test\<close> reads of it: the result of
  \<open>item.get_closest_marker("no_leaks")\<close>.
\<close>

record marker =
  args :: "pyval list"
  kwargs :: pydict

record item =
  no_leaks_marker :: "marker option"

text \<open>The loop over \<open>marker.args\<close>: the \<open>if/elif\<close> chain in the source's order.\<close>

definition flag_step :: "pyval \<Rightarrow> pydict \<Rightarrow> pydict" where
  "flag_step arg marker_args =
     (if arg = PyStr ''tasks'' then dict_set ''tasks'' (PyBool True) marker_args
      else if arg = PyStr ''threads'' then dict_set ''threads'' (PyBool True) marker_args
      else if arg = PyStr ''blocking'' then dict_set ''blocking'' (PyBool True) marker_args
      else if arg = PyStr ''all'' then
        dict_update marker_args
          [(''tasks'', PyBool True), (''threads'', PyBool True), (''blocking'', PyBool True)]
      else marker_args)"

primrec flag_loop :: "pyval list \<Rightarrow> pydict \<Rightarrow> pydict" where
  "flag_loop [] marker_args = marker_args"
| "flag_loop (arg # rest) marker_args = flag_loop rest (flag_step arg marker_args)"

text \<open>
  The dictionary \<open>marker_args\<close> as it stands just before the \<open>return\<close> statement of
  \<open>should_monitor_test\<close>.
\<close>

definition resolve_marker_args :: "marker \<Rightarrow> pydict" where
  "resolve_marker_args m =
     (let a1 = (if args m \<noteq> [] then flag_loop (args m) [] else []);
          a2 = (if kwargs m \<noteq> [] then dict_update a1 (kwargs m) else a1)
      in if a2 = [] then
           [(''tasks'', PyBool True), (''threads'', PyBool True), (''blocking'', PyBool True)]
         else a2)"

text \<open>
  \<open>should_monitor_test\<close>: \<open>Inr None\<close> when the item has no marker. With a marker, the
  \<open>return\<close> statement first evaluates the attribute \<open>PyLeakConfig.from_marker_args\<close>;
  were that name bound on the class, the call would build the configuration from
  \<open>marker_args\<close>.
\<close>

definition should_monitor_test :: "item \<Rightarrow> py_error + PyLeakConfig option" where
  "should_monitor_test it =
     (case no_leaks_marker it of
        None \<Rightarrow> Inr None
      | Some m \<Rightarrow>
          (let marker_args = resolve_marker_args m in
           case class_getattr PyLeakConfig_class_names ''from_marker_args'' of
             Inl e \<Rightarrow> Inl e
           | Inr _ \<Rightarrow> Inr (Some (PyLeakConfig_init marker_args))))"

section \<open>combined.py: CombinedLeakDetector\<close>

text \<open>
  The three detectors are built by \<open>no_task_leaks\<close>, \<open>no_event_loop_blocking\<close> and
  \<open>no_thread_leaks\<close>, which live outside the files modelled here. A detector object is
  the call that built it, with its keyword arguments in the order of the source:
  \<open>no_task_leaks(action, name_filter, enable_creation_tracking)\<close>,
  \<open>no_event_loop_blocking(action, threshold, check_interval)\<close>,
  \<open>no_thread_leaks(action, name_filter, exclude_daemon)\<close>.
\<close>

datatype detector =
    no_task_leaks pyval pyval pyval
  | no_event_loop_blocking pyval pyval pyval
  | no_thread_leaks pyval pyval pyval

text \<open>
  The exceptions \<open>__aexit__\<close> tells apart: the three typed detector errors (each with
  its \<open>str(e)\<close>), the group raised by the orchestrator (message and wrapped errors),
  and every other exception.
\<close>

datatype leak_error =
    ThreadLeakError string
  | EventLoopBlockError string
  | TaskLeakError string

datatype exn =
    LeakError leak_error
  | PyleakExceptionGroup string "leak_error list"
  | OtherException string

fun str_leak :: "leak_error \<Rightarrow> string" where
  "str_leak (ThreadLeakError m) = m"
| "str_leak (EventLoopBlockError m) = m"
| "str_leak (TaskLeakError m) = m"

text \<open>\<open>sep.join(parts)\<close>.\<close>

fun join :: "string \<Rightarrow> string list \<Rightarrow> string" where
  "join sep [] = []"
| "join sep [p] = p"
| "join sep (p # q # ps) = p @ sep @ join sep (q # ps)"

text \<open>
  One call of a detector's \<open>__enter__\<close>/\<open>__aenter__\<close> or \<open>__exit__\<close>/\<open>__aexit__\<close>, as
  the orchestrator makes it. The list of calls made so far is a history variable kept
  beside the object's fields.
\<close>

datatype call = Entered detector | Exited detector

text \<open>
  The fields set by \<open>__init__(self, config, is_async)\<close>. A detector object has no
  truth value of its own, so \<open>if self.x_detector:\<close> asks whether the field is set.
\<close>

record CombinedLeakDetector =
  config :: PyLeakConfig
  is_async :: bool
  task_detector :: "detector option"
  thread_detector :: "detector option"
  blocking_detector :: "detector option"
  calls :: "call list"

definition CombinedLeakDetector_init :: "PyLeakConfig \<Rightarrow> bool \<Rightarrow> CombinedLeakDetector" where
  "CombinedLeakDetector_init cfg async =
     \<lparr> config = cfg, is_async = async, task_detector = None, thread_detector = None,
       blocking_detector = None, calls = [] \<rparr>"

text \<open>\<open>__aenter__\<close>: the three \<open>if\<close> statements in the order of the source.\<close>

definition start_tasks :: "CombinedLeakDetector \<Rightarrow> CombinedLeakDetector" where
  "start_tasks self =
     (if is_async self \<and> truthy (detect_tasks (config self)) then
        (let d = no_task_leaks (task_action (config self)) (task_name_filter (config self))
                   (enable_task_creation_tracking (config self))
         in self\<lparr>task_detector := Some d, calls := calls self @ [Entered d]\<rparr>)
      else self)"

definition start_blocking :: "CombinedLeakDetector \<Rightarrow> CombinedLeakDetector" where
  "start_blocking self =
     (if is_async self \<and> truthy (detect_blocking (config self)) then
        (let d = no_event_loop_blocking (blocking_action (config self))
                   (blocking_threshold (config self)) (blocking_check_interval (config self))
         in self\<lparr>blocking_detector := Some d, calls := calls self @ [Entered d]\<rparr>)
      else self)"

definition start_threads :: "CombinedLeakDetector \<Rightarrow> CombinedLeakDetector" where
  "start_threads self =
     (if truthy (detect_threads (config self)) then
        (let d = no_thread_leaks (thread_action (config self)) (thread_name_filter (config self))
                   (exclude_daemon_threads (config self))
         in self\<lparr>thread_detector := Some d, calls := calls self @ [Entered d]\<rparr>)
      else self)"

definition aenter :: "CombinedLeakDetector \<Rightarrow> CombinedLeakDetector" where
  "aenter self = start_threads (start_blocking (start_tasks self))"

text \<open>
  What a detector's \<open>__exit__(exc_type, exc_val, exc_tb)\<close> does is decided outside these
  files: it is a parameter, giving for the detector and the exception passed in
  (\<open>None\<close> for a normal exit) either \<open>None\<close> (the call returned) or the exception it
  raised.
\<close>

type_synonym exit_env = "detector \<Rightarrow> exn option \<Rightarrow> exn option"

text \<open>
  One \<open>if self.x_detector: try: ... except XLeakError as e: leak_errors.append(e)\<close>
  block. \<open>catches\<close> is the \<open>except\<close> clause: it returns the error when the exception is
  of the clause's class. The result is the object after the call and either the
  exception that leaves the block or the new \<open>leak_errors\<close>.
\<close>

fun catch_thread :: "exn \<Rightarrow> leak_error option" where
  "catch_thread (LeakError (ThreadLeakError m)) = Some (ThreadLeakError m)"
| "catch_thread _ = None"

fun catch_blocking :: "exn \<Rightarrow> leak_error option" where
  "catch_blocking (LeakError (EventLoopBlockError m)) = Some (EventLoopBlockError m)"
| "catch_blocking _ = None"

fun catch_task :: "exn \<Rightarrow> leak_error option" where
  "catch_task (LeakError (TaskLeakError m)) = Some (TaskLeakError m)"
| "catch_task _ = None"

definition stop_detector ::
  "exit_env \<Rightarrow> (exn \<Rightarrow> leak_error option) \<Rightarrow> detector option \<Rightarrow> exn option \<Rightarrow>
   CombinedLeakDetector \<Rightarrow> leak_error list \<Rightarrow> CombinedLeakDetector \<times> (exn + leak_error list)" where
  "stop_detector env catches det exc self leak_errors =
     (case det of
        None \<Rightarrow> (self, Inr leak_errors)
      | Some d \<Rightarrow>
          (let self' = self\<lparr>calls := calls self @ [Exited d]\<rparr> in
           case env d exc of
             None \<Rightarrow> (self', Inr leak_errors)
           | Some e \<Rightarrow>
               (case catches e of
                  Some le \<Rightarrow> (self', Inr (leak_errors @ [le]))
                | None \<Rightarrow> (self', Inl e))))"

definition group_message :: "leak_error list \<Rightarrow> string" where
  "group_message leak_errors =
     ''PyLeak detected issues:'' @ [CHR 0x0A] @ join [CHR 0x0A, CHR 0x0A] (map str_leak leak_errors)"

text \<open>
  \<open>__aexit__(exc_type, exc_val, exc_tb)\<close>: the object afterwards, and \<open>None\<close> when the
  method returns (it returns \<open>None\<close>) or the exception it raises.
\<close>

definition aexit ::
  "exit_env \<Rightarrow> CombinedLeakDetector \<Rightarrow> exn option \<Rightarrow> CombinedLeakDetector \<times> exn option" where
  "aexit env self exc =
     (case stop_detector env catch_thread (thread_detector self) exc self [] of
        (s1, Inl e) \<Rightarrow> (s1, Some e)
      | (s1, Inr errs1) \<Rightarrow>
     (case stop_detector env catch_blocking (blocking_detector s1) exc s1 errs1 of
        (s2, Inl e) \<Rightarrow> (s2, Some e)
      | (s2, Inr errs2) \<Rightarrow>
     (case stop_detector env catch_task (task_detector s2) exc s2 errs2 of
        (s3, Inl e) \<Rightarrow> (s3, Some e)
      | (s3, Inr errs3) \<Rightarrow>
          (if errs3 \<noteq> [] then
             (s3, Some (PyleakExceptionGroup (group_message errs3) errs3))
           else (s3, None)))))"

text \<open>The synchronous pair \<open>__enter__\<close> and \<open>__exit__\<close>.\<close>

definition enter :: "CombinedLeakDetector \<Rightarrow> CombinedLeakDetector" where
  "enter self = start_threads self"

definition exit_sync ::
  "exit_env \<Rightarrow> CombinedLeakDetector \<Rightarrow> exn option \<Rightarrow> CombinedLeakDetector \<times> exn option" where
  "exit_sync env self exc =
     (case thread_detector self of
        None \<Rightarrow> (self, None)
      | Some d \<Rightarrow> (self\<lparr>calls := calls self @ [Exited d]\<rparr>, env d exc))"

text \<open>
  The statements \<open>async with detector: body\<close> and \<open>with detector: body\<close> of the plugin's
  wrappers. \<open>body\<close> is the exception the body raised, if any. Python calls the exit
  method with it; when the exit method raises, that exception leaves the statement and
  the body's exception is only its \<open>__context__\<close>; when the exit method returns a false
  value, the body's exception (if any) is raised again.
\<close>

record outcome =
  raised :: "exn option"
  exc_context :: "exn option"

definition leave :: "exn option \<Rightarrow> exn option \<Rightarrow> outcome" where
  "leave body exit_raised =
     (case exit_raised of
        Some e \<Rightarrow> \<lparr> raised = Some e, exc_context = body \<rparr>
      | None \<Rightarrow> \<lparr> raised = body, exc_context = None \<rparr>)"

definition async_with ::
  "exit_env \<Rightarrow> CombinedLeakDetector \<Rightarrow> exn option \<Rightarrow> CombinedLeakDetector \<times> outcome" where
  "async_with env self body =
     (case aexit env (aenter self) body of (self', r) \<Rightarrow> (self', leave body r))"

definition sync_with ::
  "exit_env \<Rightarrow> CombinedLeakDetector \<Rightarrow> exn option \<Rightarrow> CombinedLeakDetector \<times> outcome" where
  "sync_with env self body =
     (case exit_sync env (enter self) body of (self', r) \<Rightarrow> (self', leave body r))"

section \<open>pytest_plugin.py: the wrappers of pytest_runtest_call\<close>

text \<open>
  Each wrapper builds its detector with
  \<open>CombinedLeakDetector(config=config, is_async=..., caller_context=caller_context)\<close>.
  The call binds every keyword to a parameter of \<open>__init__(self, config, is_async)\<close>;
  a keyword that names no parameter raises \<open>TypeError\<close>. After that the wrapper runs the
  test function inside the \<open>with\<close> statement; \<open>body\<close> is the exception the test
  function raised, if any.
\<close>

definition CombinedLeakDetector_parameters :: "string list" where
  "CombinedLeakDetector_parameters = [''config'', ''is_async'']"

definition bind_keywords :: "string list \<Rightarrow> string list \<Rightarrow> py_error + unit" where
  "bind_keywords params keywords =
     (case filter (\<lambda>k. k \<notin> set params) keywords of
        [] \<Rightarrow> Inr ()
      | k # _ \<Rightarrow> Inl (TypeError k))"

definition async_wrapper ::
  "exit_env \<Rightarrow> PyLeakConfig \<Rightarrow> exn option \<Rightarrow> py_error + CombinedLeakDetector \<times> outcome" where
  "async_wrapper env cfg body =
     (case bind_keywords CombinedLeakDetector_parameters
             [''config'', ''is_async'', ''caller_context''] of
        Inl e \<Rightarrow> Inl e
      | Inr _ \<Rightarrow> Inr (async_with env (CombinedLeakDetector_init cfg True) body))"

definition sync_wrapper ::
  "exit_env \<Rightarrow> PyLeakConfig \<Rightarrow> exn option \<Rightarrow> py_error + CombinedLeakDetector \<times> outcome" where
  "sync_wrapper env cfg body =
     (case bind_keywords CombinedLeakDetector_parameters
             [''config'', ''is_async'', ''caller_context''] of
        Inl e \<Rightarrow> Inl e
      | Inr _ \<Rightarrow> Inr (sync_with env (CombinedLeakDetector_init cfg False) body))"

section \<open>utils.py: the caller context\<close>

text \<open>
  One entry of \<open>traceback.extract_stack()\<close> (oldest call first, \<open>find_my_caller\<close> itself
  last), and the dataclass \<open>CallerContext\<close>.
\<close>

record FrameSummary =
  frame_filename :: string
  frame_lineno :: "int option"
  frame_name :: string

record CallerContext =
  filename :: string
  name :: string
  lineno :: "int option"
  files :: "string set option"

text \<open>\<open>needle in haystack\<close> on strings.\<close>

fun str_contains :: "string \<Rightarrow> string \<Rightarrow> bool" where
  "str_contains needle [] = (needle = [])"
| "str_contains needle (c # cs) = (prefix needle (c # cs) \<or> str_contains needle cs)"

text \<open>
  \<open>_is_user_file(filename)\<close>. The module constant \<open>_pyleak_src_dir\<close> (the directory of
  the installed package) is a parameter.
\<close>

definition is_user_file :: "string \<Rightarrow> string \<Rightarrow> bool" where
  "is_user_file pyleak_src_dir fname =
     (if str_contains ''site-packages'' fname \<or> str_contains ''lib/python'' fname then False
      else if prefix pyleak_src_dir fname then False
      else True)"

text \<open>
  Python's \<open>xs[i]\<close> (a negative index counts from the end; out of range raises
  \<open>IndexError\<close>) and \<open>xs[:stop]\<close> (a negative stop counts from the end; the bounds are
  clipped, so \<open>xs[:-0]\<close> is \<open>xs[:0]\<close>, the empty list).
\<close>

definition py_index :: "'a list \<Rightarrow> int \<Rightarrow> py_error + 'a" where
  "py_index xs i =
     (let k = (if i < 0 then i + int (length xs) else i)
      in if k < 0 \<or> int (length xs) \<le> k then Inl IndexError else Inr (xs ! nat k))"

definition py_slice_to :: "'a list \<Rightarrow> int \<Rightarrow> 'a list" where
  "py_slice_to xs stop =
     (let k = (if stop < 0 then max 0 (stop + int (length xs)) else min stop (int (length xs)))
      in take (nat k) xs)"

text \<open>
  \<open>find_my_caller(ignore_frames)\<close>, with the extracted stack as a parameter.
\<close>

definition find_my_caller :: "string \<Rightarrow> FrameSummary list \<Rightarrow> int \<Rightarrow> py_error + CallerContext" where
  "find_my_caller pyleak_src_dir stack ignore_frames =
     (case py_index stack (- ignore_frames - 1) of
        Inl e \<Rightarrow> Inl e
      | Inr frame \<Rightarrow>
          Inr \<lparr> filename = frame_filename frame, name = frame_name frame,
                lineno = frame_lineno frame,
                files = Some (set (map frame_filename
                  (filter (\<lambda>f. is_user_file pyleak_src_dir (frame_filename f))
                     (py_slice_to stack (- ignore_frames))))) \<rparr>)"

section \<open>The Stall Detector and its action dispatch\<close>

text \<open>
  Modelled from the spec: the data model of the Stall Detector (the module
  \<open>pyleak/eventloop.py\<close> behind \<open>no_event_loop_blocking\<close> is missing). Section 3 gives a
  frame descriptor as function name, file and line, and a BlockingEvent as block id,
  timestamp, duration, stack and origin. Times and durations are in seconds, as reals.
\<close>

record FrameDescriptor =
  fd_function :: string
  fd_file :: string
  fd_line :: int

record BlockingEvent =
  block_id :: nat
  timestamp :: real
  duration :: real
  stack :: "FrameDescriptor list"
  origin :: CallerContext

text \<open>
  The configuration of one detector instance: \<open>threshold\<close>, \<open>check_interval\<close>, the scope's
  origin, and the independent sampler, here the stack it captured for the stall that
  ended at a given time.
\<close>

record StallDetector =
  threshold :: real
  check_interval :: real
  scope_origin :: CallerContext
  sampled_stack :: "real \<Rightarrow> FrameDescriptor list"

text \<open>
  Modelled from the spec: the heartbeat check of the Stall Detector (the module
  \<open>pyleak/eventloop.py\<close> is missing). "Upon resumption, compute
  \<open>actual_delay = now - previous_wake_time\<close>. If
  \<open>actual_delay - check_interval > threshold\<close>, a stall is confirmed: its duration is
  \<open>actual_delay - check_interval\<close>, its timestamp is the resumption time";
  "\<open>block_id\<close> increments per confirmed stall starting at 1"; stalls "accumulate into an
  ordered sequence in detection order".
\<close>

definition on_wake :: "StallDetector \<Rightarrow> real \<Rightarrow> real \<Rightarrow> BlockingEvent list \<Rightarrow> BlockingEvent list" where
  "on_wake det previous_wake_time now events =
     (let actual_delay = now - previous_wake_time in
      if actual_delay - check_interval det > threshold det then
        events @ [\<lparr> block_id = length events + 1, timestamp = now,
                    duration = actual_delay - check_interval det,
                    stack = sampled_stack det now, origin = scope_origin det \<rparr>]
      else events)"

text \<open>
  Modelled from the spec: the recurring wake-up of the Stall Detector (same missing
  module), run over the successive resumption times of the heartbeat.
\<close>

fun heartbeat :: "StallDetector \<Rightarrow> real \<Rightarrow> BlockingEvent list \<Rightarrow> real list \<Rightarrow> BlockingEvent list" where
  "heartbeat det previous_wake_time events [] = events"
| "heartbeat det previous_wake_time events (now # later) =
     heartbeat det now (on_wake det previous_wake_time now events) later"

text \<open>
  Modelled from the spec: the single-threaded cooperative scheduler of section 5 around
  one stall, "an interval during which the cooperative scheduler is unresponsive to
  new work because some code is running synchronously" (the scheduler is the runtime's,
  not this repository's). The block starts at time \<open>s\<close> and occupies the scheduler for
  \<open>d\<close> seconds: a wake-up due at a time \<open>x\<close> inside the block is served when the block
  ends, any other wake-up when it is due. \<open>wake_times\<close> are the first \<open>n\<close> resumption
  times of a heartbeat of period \<open>ci\<close> that last woke at \<open>w\<close>.
\<close>

definition resume :: "real \<Rightarrow> real \<Rightarrow> real \<Rightarrow> real" where
  "resume s d x = (if s \<le> x \<and> x < s + d then s + d else x)"

fun wake_times :: "real \<Rightarrow> real \<Rightarrow> real \<Rightarrow> nat \<Rightarrow> real \<Rightarrow> real list" where
  "wake_times ci s d 0 w = []"
| "wake_times ci s d (Suc n) w = resume s d (w + ci) # wake_times ci s d n (resume s d (w + ci))"

text \<open>
  The events a detector started at time \<open>t0\<close> has recorded after \<open>n\<close> heartbeats, when the
  monitored scope runs one synchronous block from \<open>s\<close> for \<open>d\<close> seconds.
\<close>

definition monitor :: "StallDetector \<Rightarrow> real \<Rightarrow> real \<Rightarrow> real \<Rightarrow> nat \<Rightarrow> BlockingEvent list" where
  "monitor det t0 s d n = heartbeat det t0 [] (wake_times (check_interval det) s d n t0)"

datatype action = Log | Warn | Raise

datatype notice =
    EventNotice real "FrameDescriptor list"
  | SummaryNotice nat
  | OriginNotice CallerContext "FrameDescriptor option"

datatype stall_error = StallDetected "BlockingEvent list"

record dispatched =
  log_records :: "BlockingEvent list"
  warnings :: "notice list"
  error :: "stall_error option"

text \<open>
  Modelled from the spec: the action dispatch of the Stall Detector on scope exit (same
  missing module). "If one or more BlockingEvents were recorded": \<open>log\<close> emits a record
  per event; \<open>warn\<close> emits one notice per event describing duration and stack, one
  summary stating the total event count, and one final notice naming the origin call
  site and the first offending source line found in the captured stack; \<open>raise\<close> raises
  a typed error carrying the full ordered sequence of events and suppresses the
  warnings. Which frames count as offending is a parameter.
\<close>

definition dispatch ::
  "(FrameDescriptor \<Rightarrow> bool) \<Rightarrow> action \<Rightarrow> CallerContext \<Rightarrow> BlockingEvent list \<Rightarrow> dispatched" where
  "dispatch offending act org events =
     (if events = [] then \<lparr> log_records = [], warnings = [], error = None \<rparr>
      else case act of
        Log \<Rightarrow> \<lparr> log_records = events, warnings = [], error = None \<rparr>
      | Warn \<Rightarrow>
          \<lparr> log_records = [],
            warnings = map (\<lambda>e. EventNotice (duration e) (stack e)) events
              @ [SummaryNotice (length events),
                 OriginNotice org (find offending (concat (map stack events)))],
            error = None \<rparr>
      | Raise \<Rightarrow> \<lparr> log_records = [], warnings = [], error = Some (StallDetected events) \<rparr>)"

section \<open>Vocabulary of the statements\<close>

text \<open>
  The detectors an object holds, in start order (tasks, blocking, threads), and the
  detectors a fresh object starts for a configuration.
\<close>

definition opt_list :: "'a option \<Rightarrow> 'a list" where
  "opt_list x = (case x of None \<Rightarrow> [] | Some v \<Rightarrow> [v])"

definition started_detectors :: "CombinedLeakDetector \<Rightarrow> detector list" where
  "started_detectors self =
     opt_list (task_detector self) @ opt_list (blocking_detector self) @
     opt_list (thread_detector self)"

definition enabled_detectors :: "PyLeakConfig \<Rightarrow> bool \<Rightarrow> detector list" where
  "enabled_detectors cfg async =
     (if async \<and> truthy (detect_tasks cfg) then
        [no_task_leaks (task_action cfg) (task_name_filter cfg)
           (enable_task_creation_tracking cfg)]
      else []) @
     (if async \<and> truthy (detect_blocking cfg) then
        [no_event_loop_blocking (blocking_action cfg) (blocking_threshold cfg)
           (blocking_check_interval cfg)]
      else []) @
     (if truthy (detect_threads cfg) then
        [no_thread_leaks (thread_action cfg) (thread_name_filter cfg)
           (exclude_daemon_threads cfg)]
      else [])"

text \<open>
  A detector's exit is within its contract when it returns or raises the typed error
  that the orchestrator's \<open>except\<close> clause for it catches; \<open>raised_by\<close> is that error, if
  any. \<open>collected\<close> lists the typed errors of the three detectors in stop order.
\<close>

definition within_contract ::
  "exit_env \<Rightarrow> (exn \<Rightarrow> leak_error option) \<Rightarrow> detector option \<Rightarrow> exn option \<Rightarrow> bool" where
  "within_contract env catches det exc =
     (case det of
        None \<Rightarrow> True
      | Some d \<Rightarrow> (case env d exc of None \<Rightarrow> True | Some e \<Rightarrow> catches e \<noteq> None))"

definition raised_by ::
  "exit_env \<Rightarrow> (exn \<Rightarrow> leak_error option) \<Rightarrow> detector option \<Rightarrow> exn option \<Rightarrow> leak_error list" where
  "raised_by env catches det exc =
     (case det of
        None \<Rightarrow> []
      | Some d \<Rightarrow>
          (case env d exc of
             None \<Rightarrow> []
           | Some e \<Rightarrow> (case catches e of None \<Rightarrow> [] | Some le \<Rightarrow> [le])))"

definition exits_within_contract :: "exit_env \<Rightarrow> CombinedLeakDetector \<Rightarrow> exn option \<Rightarrow> bool" where
  "exits_within_contract env self exc =
     (within_contract env catch_thread (thread_detector self) exc \<and>
      within_contract env catch_blocking (blocking_detector self) exc \<and>
      within_contract env catch_task (task_detector self) exc)"

definition collected :: "exit_env \<Rightarrow> CombinedLeakDetector \<Rightarrow> exn option \<Rightarrow> leak_error list" where
  "collected env self exc =
     raised_by env catch_thread (thread_detector self) exc @
     raised_by env catch_blocking (blocking_detector self) exc @
     raised_by env catch_task (task_detector self) exc"

text \<open>
  The detectors whose exit a run of \<open>__aexit__\<close> calls, in the order of the calls: the
  thread detector if set; the blocking detector if set and the thread detector's exit
  was within its contract; the task detector if set and both exits before it were.
\<close>

definition stopped :: "exit_env \<Rightarrow> CombinedLeakDetector \<Rightarrow> exn option \<Rightarrow> detector list" where
  "stopped env self exc =
     opt_list (thread_detector self) @
     (if within_contract env catch_thread (thread_detector self) exc then
        opt_list (blocking_detector self) @
        (if within_contract env catch_blocking (blocking_detector self) exc then
           opt_list (task_detector self)
         else [])
      else [])"

text \<open>A dictionary all of whose values are \<open>True\<close>.\<close>

definition all_true :: "pydict \<Rightarrow> bool" where
  "all_true d = list_all (\<lambda>kv. snd kv = PyBool True) d"

section \<open>Example inputs\<close>

text \<open>
  Three behaviours of the detectors at exit: nothing found; only the thread detector
  raises; the thread and the task detector raise.
\<close>

fun no_findings :: exit_env where
  "no_findings d exc = None"

fun only_threads_leak :: exit_env where
  "only_threads_leak (no_thread_leaks a f e) exc =
     Some (LeakError (ThreadLeakError ''1 leaked thread''))"
| "only_threads_leak (no_task_leaks a f e) exc = None"
| "only_threads_leak (no_event_loop_blocking a t c) exc = None"

fun threads_and_tasks_leak :: exit_env where
  "threads_and_tasks_leak (no_thread_leaks a f e) exc =
     Some (LeakError (ThreadLeakError ''1 leaked thread''))"
| "threads_and_tasks_leak (no_task_leaks a f e) exc =
     Some (LeakError (TaskLeakError ''2 leaked tasks''))"
| "threads_and_tasks_leak (no_event_loop_blocking a t c) exc = None"

text \<open>
  A fourth behaviour: the thread detector's exit fails with an exception that is not
  a \<open>ThreadLeakError\<close>.
\<close>

fun thread_exit_fails :: exit_env where
  "thread_exit_fails (no_thread_leaks a f e) exc =
     Some (OtherException ''RuntimeError: cannot enumerate threads'')"
| "thread_exit_fails (no_task_leaks a f e) exc = None"
| "thread_exit_fails (no_event_loop_blocking a t c) exc = None"

text \<open>The configuration of a bare \<open>@pytest.mark.no_leaks\<close>, and a user exception.\<close>

definition default_config :: PyLeakConfig where
  "default_config = PyLeakConfig_init
     [(''tasks'', PyBool True), (''threads'', PyBool True), (''blocking'', PyBool True)]"

definition user_error :: exn where
  "user_error = OtherException ''ValueError: bad upload''"

text \<open>
  A stack as \<open>find_my_caller\<close> sees it when a detector is entered from a test, for a
  package installed under \<open>example_src_dir\<close>.
\<close>

definition example_src_dir :: string where
  "example_src_dir = ''/opt/venv/src/pyleak''"

definition example_stack :: "FrameSummary list" where
  "example_stack =
     [\<lparr> frame_filename = ''/home/dev/app/tests/test_api.py'', frame_lineno = Some 12,
         frame_name = ''test_upload'' \<rparr>,
      \<lparr> frame_filename = ''/usr/lib/python3.11/contextlib.py'', frame_lineno = Some 137,
         frame_name = ''__enter__'' \<rparr>,
      \<lparr> frame_filename = ''/opt/venv/src/pyleak/eventloop.py'', frame_lineno = Some 88,
         frame_name = ''__enter__'' \<rparr>,
      \<lparr> frame_filename = ''/opt/venv/src/pyleak/utils.py'', frame_lineno = Some 42,
         frame_name = ''find_my_caller'' \<rparr>]"

text \<open>
  A stall detector with the default threshold of 0.1 s and check interval of 0.01 s, and
  one blocking event as it would record it.
\<close>

definition example_origin :: CallerContext where
  "example_origin =
     \<lparr> filename = ''/home/dev/app/tests/test_api.py'', name = ''test_upload'',
       lineno = Some 12, files = Some {''/home/dev/app/tests/test_api.py''} \<rparr>"

definition sleep_frame :: FrameDescriptor where
  "sleep_frame = \<lparr> fd_function = ''test_upload'',
     fd_file = ''/home/dev/app/tests/test_api.py'', fd_line = 14 \<rparr>"

fun example_sampler :: "real \<Rightarrow> FrameDescriptor list" where
  "example_sampler t = [sleep_frame]"

definition example_detector :: StallDetector where
  "example_detector =
     \<lparr> threshold = 1 / 10, check_interval = 1 / 100, scope_origin = example_origin,
       sampled_stack = example_sampler \<rparr>"

definition example_event :: BlockingEvent where
  "example_event =
     \<lparr> block_id = 1, timestamp = 1001 / 1000, duration = 991 / 1000,
       stack = [sleep_frame], origin = example_origin \<rparr>"

fun in_test_file :: "FrameDescriptor \<Rightarrow> bool" where
  "in_test_file fd = (fd_file fd = ''/home/dev/app/tests/test_api.py'')"

section \<open>The marker resolution of the pytest plugin\<close>

text \<open>
  C7. The claim: for every test item carrying the \<open>no_leaks\<close> marker, with any
  positional flags and keyword arguments, \<open>should_monitor_test\<close> returns a resolved
  \<open>PyLeakConfig\<close> without raising. The code does the opposite: for every such item the
  \<open>return\<close> statement looks up \<open>from_marker_args\<close> on a class that does not define it,
  so the call raises \<open>AttributeError\<close> whatever the marker holds.
\<close>

theorem should_monitor_test_marked_raises:
  "should_monitor_test \<lparr> no_leaks_marker = Some m \<rparr> = Inl (AttributeError ''from_marker_args'')"
  by (simp add: should_monitor_test_def class_getattr_def PyLeakConfig_class_names_def)

text \<open>
  Nor could a wrapper of \<open>pytest_runtest_call\<close> build its detector: the keyword
  \<open>caller_context\<close> names no parameter of \<open>CombinedLeakDetector.__init__\<close>.
\<close>

lemma wrappers_raise_type_error:
  "async_wrapper env cfg body = Inl (TypeError ''caller_context'')"
  "sync_wrapper env cfg body = Inl (TypeError ''caller_context'')"
  by (simp_all add: async_wrapper_def sync_wrapper_def bind_keywords_def
      CombinedLeakDetector_parameters_def)

lemma should_monitor_test_unmarked:
  "should_monitor_test \<lparr> no_leaks_marker = None \<rparr> = Inr None"
  by (simp add: should_monitor_test_def)

text \<open>
  C6. The claim: a marker with only the positional flag of one detector enables exactly
  that detector. For \<open>@pytest.mark.no_leaks("tasks")\<close> the code builds the dictionary
  \<open>{"tasks": True}\<close>; the constructor reads the two absent keys with the default
  \<open>True\<close>, so the thread and the blocking detector are enabled as well; and
  \<open>should_monitor_test\<close> itself raises for this marker as for every other.
\<close>

theorem tasks_flag_enables_all_detectors:
  "resolve_marker_args \<lparr> args = [PyStr ''tasks''], kwargs = [] \<rparr> = [(''tasks'', PyBool True)] \<and>
   detect_tasks (PyLeakConfig_init [(''tasks'', PyBool True)]) = PyBool True \<and>
   detect_threads (PyLeakConfig_init [(''tasks'', PyBool True)]) = PyBool True \<and>
   detect_blocking (PyLeakConfig_init [(''tasks'', PyBool True)]) = PyBool True \<and>
   should_monitor_test \<lparr> no_leaks_marker = Some \<lparr> args = [PyStr ''tasks''], kwargs = [] \<rparr> \<rparr>
     = Inl (AttributeError ''from_marker_args'')"
  by (simp add: resolve_marker_args_def flag_step_def dict_set_def PyLeakConfig_init_def
      dict_get_def should_monitor_test_def class_getattr_def PyLeakConfig_class_names_def)

text \<open>
  The same holds for every marker without keyword arguments: the flags only ever store
  \<open>True\<close>, and every absent key defaults to \<open>True\<close>, so no choice of positional flags
  disables a detector.
\<close>

lemma dict_set_all_true: "all_true d \<Longrightarrow> all_true (dict_set k (PyBool True) d)"
  by (induction d) (auto simp: all_true_def dict_set_def)

lemma flag_step_all_true: "all_true d \<Longrightarrow> all_true (flag_step a d)"
  by (simp add: flag_step_def dict_set_all_true)

lemma flag_loop_all_true: "all_true d \<Longrightarrow> all_true (flag_loop as d)"
  by (induction as arbitrary: d) (simp_all add: flag_step_all_true)

lemma dict_get_all_true: "all_true d \<Longrightarrow> dict_get d k (PyBool True) = PyBool True"
  by (induction d) (auto simp: all_true_def dict_get_def)

lemma positional_flags_never_disable:
  assumes "kwargs m = []"
  shows "detect_tasks (PyLeakConfig_init (resolve_marker_args m)) = PyBool True \<and>
         detect_threads (PyLeakConfig_init (resolve_marker_args m)) = PyBool True \<and>
         detect_blocking (PyLeakConfig_init (resolve_marker_args m)) = PyBool True"
proof -
  have "all_true (resolve_marker_args m)"
    using assms flag_loop_all_true[of "[]" "args m"]
    by (simp add: resolve_marker_args_def Let_def all_true_def)
  then show ?thesis
    by (simp add: PyLeakConfig_init_def dict_get_all_true)
qed

lemma bare_marker_enables_all_detectors:
  "resolve_marker_args \<lparr> args = [], kwargs = [] \<rparr> =
     [(''tasks'', PyBool True), (''threads'', PyBool True), (''blocking'', PyBool True)] \<and>
   detect_tasks default_config = PyBool True \<and>
   detect_threads default_config = PyBool True \<and>
   detect_blocking default_config = PyBool True \<and>
   blocking_threshold default_config = PyFloat (1 / 10) \<and>
   blocking_check_interval default_config = PyFloat (1 / 100)"
  by (simp add: resolve_marker_args_def default_config_def PyLeakConfig_init_def dict_get_def)

section \<open>The combined orchestrator\<close>

lemma rev_opt_list: "rev (opt_list x) = opt_list x"
  by (cases x) (simp_all add: opt_list_def)

lemma stop_detector_contract:
  "within_contract env catches det exc \<Longrightarrow>
   stop_detector env catches det exc self errs =
     (self\<lparr>calls := calls self @ map Exited (opt_list det)\<rparr>,
      Inr (errs @ raised_by env catches det exc))"
  by (auto simp: stop_detector_def within_contract_def raised_by_def opt_list_def
      split: option.splits)

text \<open>
  \<open>__aexit__\<close> when every detector's exit is within its contract: the three exits are
  called in the order threads, blocking, tasks, and the typed errors are gathered in
  that order.
\<close>

lemma aexit_contract:
  assumes "exits_within_contract env self exc"
  shows "aexit env self exc =
    (self\<lparr>calls := calls self @ map Exited (rev (started_detectors self))\<rparr>,
     (if collected env self exc = [] then None
      else Some (PyleakExceptionGroup (group_message (collected env self exc))
                   (collected env self exc))))"
  using assms
  by (simp add: aexit_def exits_within_contract_def stop_detector_contract collected_def
      started_detectors_def rev_opt_list)

text \<open>
  A detector exit that raises anything but its own typed error ends \<open>__aexit__\<close> at
  once: the exits after it are not called.
\<close>

lemma aexit_foreign_exception:
  assumes "thread_detector self = Some d" and "env d exc = Some e" and "catch_thread e = None"
  shows "aexit env self exc = (self\<lparr>calls := calls self @ [Exited d]\<rparr>, Some e)"
  using assms by (simp add: aexit_def stop_detector_def)

lemma aenter_started:
  "started_detectors (aenter (CombinedLeakDetector_init cfg async)) = enabled_detectors cfg async"
  by (simp add: aenter_def start_tasks_def start_blocking_def start_threads_def
      CombinedLeakDetector_init_def started_detectors_def enabled_detectors_def opt_list_def
      Let_def)

lemma aenter_calls:
  "calls (aenter (CombinedLeakDetector_init cfg async)) =
     map Entered (enabled_detectors cfg async)"
  by (simp add: aenter_def start_tasks_def start_blocking_def start_threads_def
      CombinedLeakDetector_init_def enabled_detectors_def Let_def)

lemma default_scope_fields:
  "thread_detector (aenter (CombinedLeakDetector_init default_config True)) =
     Some (no_thread_leaks (PyStr ''raise'') PyNone (PyBool True)) \<and>
   blocking_detector (aenter (CombinedLeakDetector_init default_config True)) =
     Some (no_event_loop_blocking (PyStr ''raise'') (PyFloat (1 / 10)) (PyFloat (1 / 100))) \<and>
   task_detector (aenter (CombinedLeakDetector_init default_config True)) =
     Some (no_task_leaks (PyStr ''raise'') PyNone (PyBool False))"
  by (simp add: aenter_def start_tasks_def start_blocking_def start_threads_def
      CombinedLeakDetector_init_def default_config_def PyLeakConfig_init_def dict_get_def Let_def)

lemma default_enabled:
  "enabled_detectors default_config True =
     [no_task_leaks (PyStr ''raise'') PyNone (PyBool False),
      no_event_loop_blocking (PyStr ''raise'') (PyFloat (1 / 10)) (PyFloat (1 / 100)),
      no_thread_leaks (PyStr ''raise'') PyNone (PyBool True)]"
  by (simp add: enabled_detectors_def default_config_def PyLeakConfig_init_def dict_get_def)

lemma default_scope_contract:
  "exits_within_contract no_findings (aenter (CombinedLeakDetector_init default_config True)) exc"
  "exits_within_contract only_threads_leak (aenter (CombinedLeakDetector_init default_config True)) exc"
  "exits_within_contract threads_and_tasks_leak
     (aenter (CombinedLeakDetector_init default_config True)) exc"
  by (simp_all add: exits_within_contract_def within_contract_def default_scope_fields)

lemma default_scope_collected:
  "collected no_findings (aenter (CombinedLeakDetector_init default_config True)) exc = []"
  "collected only_threads_leak (aenter (CombinedLeakDetector_init default_config True)) exc =
     [ThreadLeakError ''1 leaked thread'']"
  "collected threads_and_tasks_leak (aenter (CombinedLeakDetector_init default_config True)) exc =
     [ThreadLeakError ''1 leaked thread'', TaskLeakError ''2 leaked tasks'']"
  by (simp_all add: collected_def raised_by_def default_scope_fields)

text \<open>
  The text of the group: the header line, then the messages of the collected errors
  with an empty line between two of them.
\<close>

lemma join_Cons: "join sep (p # ps) = p @ concat (map (\<lambda>q. sep @ q) ps)"
  by (induction ps arbitrary: p) simp_all

lemma group_message_Cons:
  "group_message (e # es) =
     ''PyLeak detected issues:'' @ [CHR 0x0A] @ str_leak e @
     concat (map (\<lambda>x. [CHR 0x0A, CHR 0x0A] @ str_leak x) es)"
  by (simp add: group_message_def join_Cons comp_def)

text \<open>
  C3, as amended. The claim says that a single detector error propagates unchanged and
  that only two or more are wrapped. In the code, whenever every detector's exit
  returns or raises its own typed error, \<open>__aexit__\<close> returns normally if no error was
  collected, and otherwise raises one \<open>PyleakExceptionGroup\<close> that holds every collected
  error in stop order (threads, blocking, tasks); its text is the line
  \<open>PyLeak detected issues:\<close>, a newline, and the messages of the collected errors in
  that order, two newlines between one message and the next. A single error is
  wrapped like several.
\<close>

theorem aexit_always_aggregates:
  assumes "exits_within_contract env self exc"
  shows "snd (aexit env self exc) =
     (case collected env self exc of
        [] \<Rightarrow> None
      | e # es \<Rightarrow>
          Some (PyleakExceptionGroup
            (''PyLeak detected issues:'' @ [CHR 0x0A] @ str_leak e @
               concat (map (\<lambda>x. [CHR 0x0A, CHR 0x0A] @ str_leak x) es))
            (e # es)))"
  using assms
  by (cases "collected env self exc") (simp_all add: aexit_contract group_message_Cons)

text \<open>
  The amended C3 at the default configuration, when the thread and the task detector
  both raise: one group holding both errors, its text spelled out.
\<close>

theorem aexit_always_aggregates_witness:
  "exits_within_contract threads_and_tasks_leak
     (aenter (CombinedLeakDetector_init default_config True)) None \<and>
   snd (aexit threads_and_tasks_leak (aenter (CombinedLeakDetector_init default_config True)) None) =
     Some (PyleakExceptionGroup
       (''PyLeak detected issues:'' @ [CHR 0x0A] @ ''1 leaked thread'' @
          [CHR 0x0A, CHR 0x0A] @ ''2 leaked tasks'')
       [ThreadLeakError ''1 leaked thread'', TaskLeakError ''2 leaked tasks''])"
  using aexit_always_aggregates
    [of threads_and_tasks_leak "aenter (CombinedLeakDetector_init default_config True)" None]
  by (simp add: default_scope_contract default_scope_collected)

text \<open>
  C3 as stated fails: with all three detectors running and only the thread detector
  raising, exactly one error is collected, yet what leaves \<open>__aexit__\<close> is a group
  around it, with the header line before the error's message, and not the
  \<open>ThreadLeakError\<close> itself.
\<close>

theorem single_error_is_wrapped:
  "collected only_threads_leak (aenter (CombinedLeakDetector_init default_config True)) None =
     [ThreadLeakError ''1 leaked thread''] \<and>
   snd (aexit only_threads_leak (aenter (CombinedLeakDetector_init default_config True)) None) =
     Some (PyleakExceptionGroup (''PyLeak detected issues:'' @ [CHR 0x0A] @ ''1 leaked thread'')
       [ThreadLeakError ''1 leaked thread'']) \<and>
   snd (aexit only_threads_leak (aenter (CombinedLeakDetector_init default_config True)) None) \<noteq>
     Some (LeakError (ThreadLeakError ''1 leaked thread''))"
  by (simp add: aexit_contract default_scope_contract default_scope_collected
      group_message_Cons)

text \<open>
  C4, as amended. The claim says the user's exception stays the primary error and the
  findings are attached to it. In the code, when the body of the \<open>async with\<close> raised
  and every detector's exit is within its contract: if no detector raised, the user's
  exception leaves the statement unchanged; if at least one did, the
  \<open>PyleakExceptionGroup\<close> is the exception that leaves the statement, and the user's
  exception is kept only as its \<open>__context__\<close>.
\<close>

theorem async_with_group_is_primary:
  assumes "exits_within_contract env (aenter self) (Some user_exc)"
  shows "snd (async_with env self (Some user_exc)) =
     (if collected env (aenter self) (Some user_exc) = [] then
        \<lparr> raised = Some user_exc, exc_context = None \<rparr>
      else
        \<lparr> raised = Some (PyleakExceptionGroup
                 (group_message (collected env (aenter self) (Some user_exc)))
                 (collected env (aenter self) (Some user_exc))),
          exc_context = Some user_exc \<rparr>)"
  using assms by (simp add: async_with_def aexit_contract leave_def)

text \<open>
  The amended C4 at the default configuration, when the user code raised and no
  detector found anything: the user's exception leaves the scope.
\<close>

theorem async_with_group_is_primary_witness:
  "exits_within_contract no_findings (aenter (CombinedLeakDetector_init default_config True))
     (Some user_error) \<and>
   snd (async_with no_findings (CombinedLeakDetector_init default_config True) (Some user_error)) =
     \<lparr> raised = Some user_error, exc_context = None \<rparr>"
  using async_with_group_is_primary
    [of no_findings "CombinedLeakDetector_init default_config True" user_error]
  by (simp add: default_scope_contract default_scope_collected)

text \<open>
  C4 as stated fails: the user code raised and the thread detector raised as well; the
  exception that leaves the scope is the group, not the user's exception.
\<close>

theorem user_exception_replaced_by_group:
  "raised (snd (async_with only_threads_leak (CombinedLeakDetector_init default_config True)
      (Some user_error))) =
     Some (PyleakExceptionGroup (group_message [ThreadLeakError ''1 leaked thread''])
       [ThreadLeakError ''1 leaked thread'']) \<and>
   raised (snd (async_with only_threads_leak (CombinedLeakDetector_init default_config True)
      (Some user_error))) \<noteq> Some user_error \<and>
   exc_context (snd (async_with only_threads_leak (CombinedLeakDetector_init default_config True)
      (Some user_error))) = Some user_error"
  by (simp add: async_with_def aexit_contract default_scope_contract default_scope_collected
      leave_def user_error_def)

text \<open>
  The exits \<open>__aexit__\<close> calls, for any object and any behaviour of the detectors.
\<close>

lemma stop_detector_foreign:
  "\<not> within_contract env catches det exc \<Longrightarrow>
   \<exists>e. stop_detector env catches det exc self errs =
     (self\<lparr>calls := calls self @ map Exited (opt_list det)\<rparr>, Inl e)"
  by (auto simp: stop_detector_def within_contract_def opt_list_def split: option.splits)

lemma aexit_calls:
  "calls (fst (aexit env self exc)) = calls self @ map Exited (stopped env self exc)"
proof (cases "within_contract env catch_thread (thread_detector self) exc")
  case False
  then obtain e where "stop_detector env catch_thread (thread_detector self) exc self [] =
      (self\<lparr>calls := calls self @ map Exited (opt_list (thread_detector self))\<rparr>, Inl e)"
    using stop_detector_foreign by blast
  then show ?thesis using False by (simp add: aexit_def stopped_def)
next
  case thread: True
  show ?thesis
  proof (cases "within_contract env catch_blocking (blocking_detector self) exc")
    case False
    let ?s1 = "self\<lparr>calls := calls self @ map Exited (opt_list (thread_detector self))\<rparr>"
    have "\<not> within_contract env catch_blocking (blocking_detector ?s1) exc"
      using False by simp
    then obtain e where
      "stop_detector env catch_blocking (blocking_detector ?s1) exc ?s1
         ([] @ raised_by env catch_thread (thread_detector self) exc) =
       (?s1\<lparr>calls := calls ?s1 @ map Exited (opt_list (blocking_detector ?s1))\<rparr>, Inl e)"
      using stop_detector_foreign by blast
    then show ?thesis
      using thread False by (simp add: aexit_def stopped_def stop_detector_contract)
  next
    case blocking: True
    show ?thesis
    proof (cases "within_contract env catch_task (task_detector self) exc")
      case True
      then have "exits_within_contract env self exc"
        using thread blocking by (simp add: exits_within_contract_def)
      then show ?thesis
        using thread blocking
        by (simp add: aexit_contract stopped_def started_detectors_def rev_opt_list)
    next
      case False
      let ?s2 = "self\<lparr>calls := calls self @ map Exited (opt_list (thread_detector self)) @
        map Exited (opt_list (blocking_detector self))\<rparr>"
      have "\<not> within_contract env catch_task (task_detector ?s2) exc"
        using False by simp
      then obtain e where
        "stop_detector env catch_task (task_detector ?s2) exc ?s2
           (raised_by env catch_thread (thread_detector self) exc @
            raised_by env catch_blocking (blocking_detector self) exc) =
         (?s2\<lparr>calls := calls ?s2 @ map Exited (opt_list (task_detector ?s2))\<rparr>, Inl e)"
        using stop_detector_foreign by blast
      then show ?thesis
        using thread blocking False by (simp add: aexit_def stopped_def stop_detector_contract)
    qed
  qed
qed

lemma stopped_prefix: "prefix (stopped env self exc) (rev (started_detectors self))"
  by (simp add: stopped_def started_detectors_def rev_opt_list)

lemma stopped_all:
  "exits_within_contract env self exc \<Longrightarrow> stopped env self exc = rev (started_detectors self)"
  by (simp add: stopped_def started_detectors_def rev_opt_list exits_within_contract_def)

text \<open>
  C5, as amended. The claim says that on every exit every started detector is stopped.
  In the code, for every configuration, every exit of the scope (normal, or with any
  exception raised by the body) and every behaviour of the detectors' exits: the
  enabled detectors are entered in the order tasks, blocking, threads; the exits that
  follow are an initial part of the reverse order (threads, blocking, tasks), ending
  with the first detector whose exit raises something other than its own typed error;
  and when every detector's exit returns or raises its own typed error, the exits are
  those of all started detectors, in exactly the reverse order.
\<close>

theorem async_scope_stop_order:
  "calls (fst (async_with env (CombinedLeakDetector_init cfg async) exc)) =
     map Entered (enabled_detectors cfg async) @
     map Exited (stopped env (aenter (CombinedLeakDetector_init cfg async)) exc) \<and>
   prefix (stopped env (aenter (CombinedLeakDetector_init cfg async)) exc)
     (rev (enabled_detectors cfg async)) \<and>
   (exits_within_contract env (aenter (CombinedLeakDetector_init cfg async)) exc \<longrightarrow>
      calls (fst (async_with env (CombinedLeakDetector_init cfg async) exc)) =
        map Entered (enabled_detectors cfg async) @
        map Exited (rev (enabled_detectors cfg async)))"
proof -
  let ?s = "aenter (CombinedLeakDetector_init cfg async)"
  have c: "calls (fst (async_with env (CombinedLeakDetector_init cfg async) exc)) =
      map Entered (enabled_detectors cfg async) @ map Exited (stopped env ?s exc)"
    using aexit_calls[of env ?s exc]
    by (cases "aexit env ?s exc") (simp add: async_with_def aenter_calls)
  have p: "prefix (stopped env ?s exc) (rev (enabled_detectors cfg async))"
    using stopped_prefix[of env ?s exc] by (simp add: aenter_started)
  have a: "exits_within_contract env ?s exc \<Longrightarrow>
      stopped env ?s exc = rev (enabled_detectors cfg async)"
    using stopped_all[of env ?s exc] by (simp add: aenter_started)
  show ?thesis using c p a by simp
qed

text \<open>
  The amended C5 at the default configuration, with the user code raising and two
  detectors raising their typed errors: three entries, then the three exits in reverse.
\<close>

theorem async_scope_stop_order_witness:
  "exits_within_contract threads_and_tasks_leak
     (aenter (CombinedLeakDetector_init default_config True)) (Some user_error) \<and>
   calls (fst (async_with threads_and_tasks_leak (CombinedLeakDetector_init default_config True)
     (Some user_error))) =
     [Entered (no_task_leaks (PyStr ''raise'') PyNone (PyBool False)),
      Entered (no_event_loop_blocking (PyStr ''raise'') (PyFloat (1 / 10)) (PyFloat (1 / 100))),
      Entered (no_thread_leaks (PyStr ''raise'') PyNone (PyBool True)),
      Exited (no_thread_leaks (PyStr ''raise'') PyNone (PyBool True)),
      Exited (no_event_loop_blocking (PyStr ''raise'') (PyFloat (1 / 10)) (PyFloat (1 / 100))),
      Exited (no_task_leaks (PyStr ''raise'') PyNone (PyBool False))]"
proof -
  have h: "exits_within_contract threads_and_tasks_leak
      (aenter (CombinedLeakDetector_init default_config True)) (Some user_error)"
    by (simp add: default_scope_contract)
  have "calls (fst (async_with threads_and_tasks_leak
      (CombinedLeakDetector_init default_config True) (Some user_error))) =
      map Entered (enabled_detectors default_config True) @
      map Exited (rev (enabled_detectors default_config True))"
    using async_scope_stop_order
      [of threads_and_tasks_leak default_config True "Some user_error"] h
    by blast
  then show ?thesis using h by (simp add: default_enabled)
qed

text \<open>
  C5 as stated fails: at the default configuration, with a normal exit of the body and
  a thread detector whose exit raises a \<open>RuntimeError\<close>, all three detectors are entered
  and only the thread detector's exit is called; the blocking and the task detector
  were started and are never stopped, and the \<open>RuntimeError\<close> leaves the scope.
\<close>

theorem foreign_exit_leaves_detectors_running:
  "calls (fst (async_with thread_exit_fails (CombinedLeakDetector_init default_config True) None)) =
     [Entered (no_task_leaks (PyStr ''raise'') PyNone (PyBool False)),
      Entered (no_event_loop_blocking (PyStr ''raise'') (PyFloat (1 / 10)) (PyFloat (1 / 100))),
      Entered (no_thread_leaks (PyStr ''raise'') PyNone (PyBool True)),
      Exited (no_thread_leaks (PyStr ''raise'') PyNone (PyBool True))] \<and>
   raised (snd (async_with thread_exit_fails (CombinedLeakDetector_init default_config True) None)) =
     Some (OtherException ''RuntimeError: cannot enumerate threads'')"
  by (simp add: async_with_def aexit_def stop_detector_def default_scope_fields leave_def
      aenter_calls default_enabled)

text \<open>
  C10. A synchronous scope, whatever the configuration and whatever \<open>is_async\<close> says:
  the task and the blocking detector are never created; the only calls are the entry
  and the exit of the thread detector, and only when thread detection is enabled; and
  what leaves the scope is decided by the thread detector's exit and the body alone.
\<close>

theorem sync_scope_only_threads:
  "task_detector (fst (sync_with env (CombinedLeakDetector_init cfg async) body)) = None \<and>
   blocking_detector (fst (sync_with env (CombinedLeakDetector_init cfg async) body)) = None \<and>
   calls (fst (sync_with env (CombinedLeakDetector_init cfg async) body)) =
     (if truthy (detect_threads cfg) then
        [Entered (no_thread_leaks (thread_action cfg) (thread_name_filter cfg)
           (exclude_daemon_threads cfg)),
         Exited (no_thread_leaks (thread_action cfg) (thread_name_filter cfg)
           (exclude_daemon_threads cfg))]
      else []) \<and>
   snd (sync_with env (CombinedLeakDetector_init cfg async) body) =
     (if truthy (detect_threads cfg) then
        leave body (env (no_thread_leaks (thread_action cfg) (thread_name_filter cfg)
                      (exclude_daemon_threads cfg)) body)
      else leave body None)"
  by (simp add: sync_with_def exit_sync_def enter_def start_threads_def
      CombinedLeakDetector_init_def Let_def)

text \<open>
  C10 at the default configuration (task and blocking detection enabled), with exits
  that would report task leaks if asked: only the thread detector is called, and its
  error is what leaves the scope.
\<close>

theorem sync_scope_only_threads_witness:
  "truthy (detect_tasks default_config) \<and> truthy (detect_blocking default_config) \<and>
   task_detector (fst (sync_with threads_and_tasks_leak
     (CombinedLeakDetector_init default_config False) None)) = None \<and>
   blocking_detector (fst (sync_with threads_and_tasks_leak
     (CombinedLeakDetector_init default_config False) None)) = None \<and>
   calls (fst (sync_with threads_and_tasks_leak
     (CombinedLeakDetector_init default_config False) None)) =
     [Entered (no_thread_leaks (PyStr ''raise'') PyNone (PyBool True)),
      Exited (no_thread_leaks (PyStr ''raise'') PyNone (PyBool True))] \<and>
   raised (snd (sync_with threads_and_tasks_leak
     (CombinedLeakDetector_init default_config False) None)) =
     Some (LeakError (ThreadLeakError ''1 leaked thread''))"
  using sync_scope_only_threads [of threads_and_tasks_leak default_config False None]
  by (simp add: default_config_def PyLeakConfig_init_def dict_get_def leave_def)

section \<open>The caller context\<close>

lemma str_contains_sublist: "str_contains needle hay = sublist needle hay"
  by (induction hay) (simp_all add: sublist_Cons_right)

lemma py_index_from_end:
  "0 < n \<Longrightarrow> n < length xs \<Longrightarrow> py_index xs (- int n - 1) = Inr (xs ! (length xs - n - 1))"
  by (auto simp: py_index_def Let_def nat_diff_distrib' nat_add_distrib
      intro!: arg_cong[where f="(!) xs"])

lemma py_slice_to_from_end:
  "0 < n \<Longrightarrow> n < length xs \<Longrightarrow> py_slice_to xs (- int n) = take (length xs - n) xs"
  by (auto simp: py_slice_to_def Let_def intro!: arg_cong[where f="\<lambda>k. take k xs"])

lemma image_filter_set: "f ` {x \<in> set xs. P x} = set (map f (filter P xs))"
  by auto

lemma find_my_caller_short_stack:
  "0 \<le> n \<Longrightarrow> int (length stk) \<le> n \<Longrightarrow> find_my_caller src stk n = Inl IndexError"
  by (simp add: find_my_caller_def py_index_def Let_def)

text \<open>
  C9, as amended. The claim says the \<open>files\<close> field is the set of file names on the call
  stack. In the code, for \<open>ignore_frames = n\<close> with \<open>0 < n\<close> and a stack of more than \<open>n\<close>
  frames, \<open>find_my_caller\<close> returns a context for the frame just above the ignored
  ones, and its \<open>files\<close> field is the set of file names of the frames other than the
  last \<open>n\<close> that \<open>_is_user_file\<close> accepts: names containing \<open>site-packages\<close> or
  \<open>lib/python\<close> and names under the package's own directory are left out.
\<close>

theorem find_my_caller_files:
  assumes "0 < n" and "n < length stk"
  shows "\<exists>ctx. find_my_caller src stk (int n) = Inr ctx \<and>
           filename ctx = frame_filename (stk ! (length stk - n - 1)) \<and>
           files ctx = Some (frame_filename `
             {f \<in> set (take (length stk - n) stk). is_user_file src (frame_filename f)})"
  using assms
  by (simp add: find_my_caller_def py_index_from_end py_slice_to_from_end)

text \<open>
  The amended C9 on the example stack with the default \<open>ignore_frames = 2\<close>: the call
  returns, and of the two frames considered only the test file is a user file.
\<close>

theorem find_my_caller_files_witness:
  "(0 :: nat) < 2 \<and> 2 < length example_stack \<and>
   (\<exists>ctx. find_my_caller example_src_dir example_stack (int 2) = Inr ctx \<and>
      filename ctx = ''/usr/lib/python3.11/contextlib.py'' \<and>
      files ctx = Some {''/home/dev/app/tests/test_api.py''})"
proof -
  have len: "(0 :: nat) < 2 \<and> 2 < length example_stack"
    by (simp add: example_stack_def)
  have user: "frame_filename `
      {f \<in> set (take (length example_stack - 2) example_stack).
         is_user_file example_src_dir (frame_filename f)} = {''/home/dev/app/tests/test_api.py''}"
    unfolding image_filter_set
    by (simp add: example_stack_def example_src_dir_def is_user_file_def)
  have at: "frame_filename (example_stack ! (length example_stack - 2 - 1)) =
      ''/usr/lib/python3.11/contextlib.py''"
    by (simp add: example_stack_def)
  show ?thesis
    using find_my_caller_files [of 2 example_stack example_src_dir] len user at by simp
qed

text \<open>
  C9 as stated fails: on the example stack the standard-library file
  \<open>/usr/lib/python3.11/contextlib.py\<close> is on the call stack (it is even the frame the
  context is built for), and the \<open>files\<close> field does not hold it; nor does it hold the
  two files of the package.
\<close>

theorem files_omit_library_frames:
  "find_my_caller example_src_dir example_stack 2 =
     Inr \<lparr> filename = ''/usr/lib/python3.11/contextlib.py'', name = ''__enter__'',
           lineno = Some 137, files = Some {''/home/dev/app/tests/test_api.py''} \<rparr> \<and>
   Some {''/home/dev/app/tests/test_api.py''} \<noteq> Some (set (map frame_filename example_stack))"
  by (simp add: find_my_caller_def example_stack_def example_src_dir_def py_index_def
      py_slice_to_def is_user_file_def)

section \<open>The Stall Detector\<close>

lemma on_wake_on_time:
  "0 \<le> threshold det \<Longrightarrow> on_wake det w (w + check_interval det) evs = evs"
  by (simp add: on_wake_def)

text \<open>Once the block is over, every wake-up is on time and nothing is recorded.\<close>

lemma heartbeat_after_block:
  "0 \<le> threshold det \<Longrightarrow> 0 \<le> check_interval det \<Longrightarrow> s + d \<le> w \<Longrightarrow>
   heartbeat det w evs (wake_times (check_interval det) s d n w) = evs"
proof (induction n arbitrary: w)
  case 0
  then show ?case by simp
next
  case (Suc n)
  have r: "resume s d (w + check_interval det) = w + check_interval det"
    using Suc.prems by (simp add: resume_def)
  have "s + d \<le> w + check_interval det" using Suc.prems by simp
  then show ?case
    using Suc.IH[of "w + check_interval det"] Suc.prems by (simp add: r on_wake_on_time)
qed

text \<open>
  A block no longer than the threshold delays a wake-up by at most its own length,
  whatever the phase: nothing is recorded.
\<close>

lemma heartbeat_short_block:
  "0 \<le> d \<Longrightarrow> d \<le> threshold det \<Longrightarrow>
   heartbeat det w evs (wake_times (check_interval det) s d n w) = evs"
proof (induction n arbitrary: w)
  case 0
  then show ?case by simp
next
  case (Suc n)
  have "on_wake det w (resume s d (w + check_interval det)) evs = evs"
    using Suc.prems by (simp add: on_wake_def resume_def)
  then show ?case using Suc by simp
qed

text \<open>
  A block longer than threshold plus check interval: the wake-ups before the block are
  on time, the one due during the block is served at its end and recorded, the later
  ones are on time again.
\<close>

lemma heartbeat_long_block:
  "0 < check_interval det \<Longrightarrow> 0 \<le> threshold det \<Longrightarrow>
   threshold det + check_interval det < d \<Longrightarrow> w \<le> s \<Longrightarrow>
   s < w + real n * check_interval det \<Longrightarrow>
   \<exists>ev. heartbeat det w evs (wake_times (check_interval det) s d n w) = evs @ [ev] \<and>
        block_id ev = length evs + 1 \<and> timestamp ev = s + d \<and>
        d - check_interval det \<le> duration ev \<and> duration ev \<le> d"
proof (induction n arbitrary: w)
  case 0
  then show ?case by simp
next
  case (Suc n)
  let ?ci = "check_interval det"
  show ?case
  proof (cases "s \<le> w + ?ci")
    case True
    have r: "resume s d (w + ?ci) = s + d"
      using True Suc.prems by (simp add: resume_def)
    have ow: "on_wake det w (s + d) evs =
        evs @ [\<lparr> block_id = length evs + 1, timestamp = s + d, duration = s + d - w - ?ci,
                  stack = sampled_stack det (s + d), origin = scope_origin det \<rparr>]"
      using True Suc.prems by (simp add: on_wake_def Let_def)
    have rest: "heartbeat det (s + d) xs (wake_times ?ci s d n (s + d)) = xs" for xs
      using Suc.prems by (intro heartbeat_after_block) simp_all
    show ?thesis
      using True Suc.prems by (simp add: r ow rest)
  next
    case False
    have r: "resume s d (w + ?ci) = w + ?ci"
      using False by (simp add: resume_def)
    have "s < (w + ?ci) + real n * ?ci"
      using Suc.prems by (simp add: algebra_simps)
    then show ?thesis
      using Suc.IH[of "w + ?ci"] Suc.prems False by (simp add: r on_wake_on_time)
  qed
qed

text \<open>
  C2, as amended. The claim puts the line between one event and none at \<open>d > t\<close>. By
  the specification's own check, \<open>actual_delay - check_interval > threshold\<close>, a
  detector with a positive check interval, started at \<open>t0\<close> no later than the start \<open>s\<close>
  of a block of \<open>d\<close> seconds, records nothing when \<open>d \<le> threshold\<close>; and when the
  threshold is not negative, \<open>d\<close> exceeds it by more than the check interval and the
  heartbeat has run past the start of the block, it records exactly one event, with
  \<open>block_id\<close> 1, the end of the block as timestamp, and a duration between
  \<open>d - check_interval\<close> and \<open>d\<close>. For \<open>threshold < d \<le> threshold + check_interval\<close>
  nothing is promised: it depends on the phase of the heartbeat.
\<close>

theorem stall_recorded_by_excess:
  assumes "0 < check_interval det" and "0 \<le> d" and "t0 \<le> s"
  shows "(d \<le> threshold det \<longrightarrow> monitor det t0 s d n = []) \<and>
         (0 \<le> threshold det \<and> threshold det + check_interval det < d \<and>
          s < t0 + real n * check_interval det \<longrightarrow>
            (\<exists>ev. monitor det t0 s d n = [ev] \<and> block_id ev = 1 \<and> timestamp ev = s + d \<and>
                  d - check_interval det \<le> duration ev \<and> duration ev \<le> d))"
  using assms heartbeat_short_block[of d det t0 "[]" s n]
    heartbeat_long_block[of det d t0 s n "[]"]
  by (auto simp: monitor_def)

text \<open>
  The amended C2 for the default detector (threshold 0.1 s, check interval 0.01 s)
  started at time 0, with a block starting at 0.001 s, over three heartbeats: a block
  of 0.05 s records nothing, a block of 1 s records one event.
\<close>

theorem stall_recorded_by_excess_witness:
  "0 < check_interval example_detector \<and> (0 :: real) \<le> 1 / 1000 \<and>
   monitor example_detector 0 (1 / 1000) (1 / 20) 3 = [] \<and>
   (\<exists>ev. monitor example_detector 0 (1 / 1000) 1 3 = [ev] \<and> block_id ev = 1 \<and>
      timestamp ev = 1 / 1000 + 1 \<and> 1 - check_interval example_detector \<le> duration ev \<and>
      duration ev \<le> 1)"
  using stall_recorded_by_excess [of example_detector "1 / 20" 0 "1 / 1000" 3]
    stall_recorded_by_excess [of example_detector 1 0 "1 / 1000" 3]
  by (simp add: example_detector_def)

text \<open>
  C2 as stated fails: for the default detector started at time 0, a block of 0.105 s
  starting at 0.001 s is longer than the threshold of 0.1 s, yet the wake-up due at
  0.01 s is served at 0.106 s, 0.096 s late, and no event is recorded.
\<close>

theorem block_just_over_threshold_unrecorded:
  "threshold example_detector < 21 / 200 \<and>
   monitor example_detector 0 (1 / 1000) (21 / 200) 3 = []"
  by (simp add: monitor_def example_detector_def numeral_3_eq_3 resume_def on_wake_def)

section \<open>The action dispatch\<close>

text \<open>
  C8. For a scope with at least one recorded event: under \<open>warn\<close> the dispatch emits one
  notice per event with its duration and stack, in order, then one summary with the
  number of events, then one notice with the origin and the first offending frame of
  the captured stacks (so \<open>n + 2\<close> notices), and raises nothing; under \<open>raise\<close> it raises
  the typed error carrying the events in order and emits no notice; and under either
  action exactly one of "notices were emitted" and "an error was raised" holds.
\<close>

theorem dispatch_warn_or_raise:
  assumes "events \<noteq> []"
  shows "dispatch offending Warn org events =
           \<lparr> log_records = [],
             warnings = map (\<lambda>e. EventNotice (duration e) (stack e)) events
               @ [SummaryNotice (length events),
                  OriginNotice org (find offending (concat (map stack events)))],
             error = None \<rparr> \<and>
         length (warnings (dispatch offending Warn org events)) = length events + 2 \<and>
         dispatch offending Raise org events =
           \<lparr> log_records = [], warnings = [], error = Some (StallDetected events) \<rparr> \<and>
         (\<forall>act. act = Warn \<or> act = Raise \<longrightarrow>
            ((warnings (dispatch offending act org events) \<noteq> []) \<noteq>
             (error (dispatch offending act org events) \<noteq> None)))"
  using assms by (auto simp: dispatch_def split: action.splits)

text \<open>
  C8 for one event of 0.991 s, as in the tests that sleep for a second: three notices
  under \<open>warn\<close>, the error with the one event under \<open>raise\<close>.
\<close>

theorem dispatch_warn_or_raise_witness:
  "[example_event] \<noteq> [] \<and>
   warnings (dispatch in_test_file Warn example_origin [example_event]) =
     [EventNotice (991 / 1000) [sleep_frame], SummaryNotice 1,
      OriginNotice example_origin (Some sleep_frame)] \<and>
   error (dispatch in_test_file Warn example_origin [example_event]) = None \<and>
   warnings (dispatch in_test_file Raise example_origin [example_event]) = [] \<and>
   error (dispatch in_test_file Raise example_origin [example_event]) =
     Some (StallDetected [example_event])"
  using dispatch_warn_or_raise [of "[example_event]" in_test_file example_origin]
  by (simp add: example_event_def sleep_frame_def)

end
